theory Spec2Isabelle
  imports Main
begin

section \<open>Strings\<close>

text \<open>
  Python's \<^verbatim>\<open>str.lower()\<close>, on the ASCII letters: the twenty-six capitals are mapped to
  their small letters and every other character is kept. Characters are bytes here, so
  letters outside ASCII are left as they are.
\<close>

definition lower_char :: "char \<Rightarrow> char" where
  "lower_char c =
     (case map_of (zip ''ABCDEFGHIJKLMNOPQRSTUVWXYZ'' ''abcdefghijklmnopqrstuvwxyz'') c of
        Some d \<Rightarrow> d
      | None \<Rightarrow> c)"

definition lower :: "string \<Rightarrow> string" where
  "lower s = map lower_char s"

text \<open>
  \<^verbatim>\<open>s.rsplit(sep, 1)\<close>: at most one split, at the last occurrence of the separator.
  Without a separator the result is the one-element list \<^verbatim>\<open>[s]\<close>.
\<close>

definition rsplit1 :: "char \<Rightarrow> string \<Rightarrow> string list" where
  "rsplit1 sep s =
     (if sep \<in> set s
      then [rev (tl (dropWhile (\<lambda>c. c \<noteq> sep) (rev s))),
            rev (takeWhile (\<lambda>c. c \<noteq> sep) (rev s))]
      else [s])"

section \<open>Configuration URIs, loaders and errors\<close>

record config_uri =
  scheme :: string
  path :: string
  fragment :: "string option"

text \<open>What a caller may pass as \<^verbatim>\<open>config_uri\<close>: a raw string or an already parsed URI.\<close>

datatype uri_input = Raw string | Parsed config_uri

text \<open>
  Exceptions raised by plugin code (the import of an entry point, a loader factory, a
  loader method). They pass through this module unchanged.
\<close>

datatype plugin_error = NoSectionError | PluginError string

type_synonym settings = "(string \<times> string) list"

text \<open>The loader object a plugin factory produces, with the three methods of the interface.\<close>

record loader =
  loader_get_sections :: "plugin_error + string list"
  loader_get_settings :: "string option \<Rightarrow> settings option \<Rightarrow> plugin_error + settings"
  loader_setup_logging :: "settings option \<Rightarrow> plugin_error + unit"

type_synonym loader_factory = "config_uri \<Rightarrow> plugin_error + loader"

section \<open>The packaging environment\<close>

text \<open>
  The three operations of \<^verbatim>\<open>pkg_resources\<close> that the module calls are parameters of the
  model. An entry point has a name, the distribution that owns it and the object reference
  that \<^verbatim>\<open>ep.load()\<close> imports. \<^verbatim>\<open>get_distribution\<close> gives \<open>None\<close> where the library raises
  \<^verbatim>\<open>DistributionNotFound\<close>; \<open>get_entry_map d group\<close> stands for
  \<^verbatim>\<open>d.get_entry_map(group).values()\<close>. Importing an entry point gives a callable factory or
  fails. Other exceptions of the packaging library are not modelled.
\<close>

record dist_meta =
  project_name :: string

record entry_point =
  name :: string
  dist :: dist_meta
  target :: string

record distribution = dist_meta +
  get_entry_map :: "string \<Rightarrow> entry_point list"

record pkg_resources =
  get_distribution :: "string \<Rightarrow> distribution option"
  iter_entry_points :: "string \<Rightarrow> entry_point list"
  entry_point_load :: "entry_point \<Rightarrow> plugin_error + loader_factory"

text \<open>The calls made to the environment, in the order they are made.\<close>

datatype call =
    GetDistribution string
  | GetEntryMap string string
  | IterEntryPoints string
  | EntryPointLoad entry_point

section \<open>Loader descriptors\<close>

text \<open>
  \<^verbatim>\<open>EntryPointLoaderInfo\<close>. The field \<open>factory_memo\<close> is the attribute \<^verbatim>\<open>_factory\<close>,
  \<open>None\<close> until the entry point has been imported.
\<close>

record loader_info =
  entry_point :: entry_point
  scheme :: string
  protocol :: "string option"
  factory_memo :: "loader_factory option"

datatype error =
    InvalidURI string
  | LoaderNotFound string "string option"
  | MultipleLoadersFound string "loader_info list" "string option"
  | Raised plugin_error

definition raised :: "plugin_error + 'a \<Rightarrow> error + 'a" where
  "raised r = (case r of Inl e \<Rightarrow> Inl (Raised e) | Inr v \<Rightarrow> Inr v)"

text \<open>
  Modelled from the spec: \<^verbatim>\<open>parse_uri\<close> lives in \<^verbatim>\<open>plaster/uri.py\<close>, which is not among
  the sources. The spec says: the parser accepts a raw string or an already structured
  ConfigURI, which it passes through; a raw string must contain a scheme separator
  (\<^verbatim>\<open>scheme:rest\<close>), the remainder is split on an optional trailing \<^verbatim>\<open>#fragment\<close>, and a
  string without a scheme separator fails with \<^verbatim>\<open>InvalidURI\<close>. The scheme is taken up to
  the first colon and the fragment from the first hash sign of the remainder.
\<close>

definition parse_uri :: "uri_input \<Rightarrow> error + config_uri" where
  "parse_uri config =
     (case config of
        Parsed uri \<Rightarrow> Inr uri
      | Raw s \<Rightarrow>
          if CHR '':'' \<notin> set s then Inl (InvalidURI s)
          else
            let rest = tl (dropWhile (\<lambda>c. c \<noteq> CHR '':'') s)
            in Inr \<lparr>config_uri.scheme = takeWhile (\<lambda>c. c \<noteq> CHR '':'') s,
                    path = takeWhile (\<lambda>c. c \<noteq> CHR ''#'') rest,
                    fragment =
                      (if CHR ''#'' \<in> set rest
                       then Some (tl (dropWhile (\<lambda>c. c \<noteq> CHR ''#'') rest))
                       else None)\<rparr>)"

definition EntryPointLoaderInfo :: "entry_point \<Rightarrow> string option \<Rightarrow> loader_info" where
  "EntryPointLoaderInfo ep proto =
     \<lparr>entry_point = ep,
      loader_info.scheme = name ep @ ''+'' @ project_name (dist ep),
      protocol = proto,
      factory_memo = None\<rparr>"

text \<open>
  The property \<^verbatim>\<open>factory\<close>. It returns the factory (or the exception of the import), the
  descriptor as the access leaves it, and the calls made to the environment.
\<close>

definition factory ::
  "pkg_resources \<Rightarrow> loader_info \<Rightarrow> (plugin_error + loader_factory) \<times> loader_info \<times> call list" where
  "factory env self =
     (case factory_memo self of
        None \<Rightarrow>
          (case entry_point_load env (entry_point self) of
             Inl e \<Rightarrow> (Inl e, self, [EntryPointLoad (entry_point self)])
           | Inr f \<Rightarrow> (Inr f, self\<lparr>factory_memo := Some f\<rparr>, [EntryPointLoad (entry_point self)]))
      | Some f \<Rightarrow> (Inr f, self, []))"

definition load ::
  "pkg_resources \<Rightarrow> loader_info \<Rightarrow> uri_input \<Rightarrow> (error + loader) \<times> loader_info \<times> call list" where
  "load env self config =
     (case parse_uri config of
        Inl e \<Rightarrow> (Inl e, self, [])
      | Inr uri \<Rightarrow>
          (case factory env self of
             (Inl e, self', calls) \<Rightarrow> (Inl (Raised e), self', calls)
           | (Inr f, self', calls) \<Rightarrow> (raised (f uri), self', calls)))"

text \<open>A caller that loads one URI after the other through the same descriptor.\<close>

fun load_each ::
  "pkg_resources \<Rightarrow> loader_info \<Rightarrow> uri_input list
     \<Rightarrow> (error + loader) list \<times> loader_info \<times> call list" where
  "load_each env self [] = ([], self, [])"
| "load_each env self (c # cs) =
     (case load env self c of
        (r, self', calls) \<Rightarrow>
          (case load_each env self' cs of
             (rs, self'', calls') \<Rightarrow> (r # rs, self'', calls @ calls')))"

section \<open>Discovery and resolution\<close>

text \<open>
  The entry point group that \<^verbatim>\<open>find_loaders\<close> computes from the protocol before it
  searches.
\<close>

definition loader_group :: "string option \<Rightarrow> string" where
  "loader_group proto =
     (case proto of
        None \<Rightarrow> ''plaster.loader_factory''
      | Some p \<Rightarrow> ''plaster.loader_factory.'' @ p)"

text \<open>
  \<^verbatim>\<open>find_loaders\<close>. The first block is the search inside the distribution named after
  the last \<^verbatim>\<open>+\<close>; it leaves the scheme to compare with, the entry points matched so far and
  the calls made. The second block is the search over all distributions, run when nothing
  has been matched.
\<close>

definition find_loaders ::
  "pkg_resources \<Rightarrow> string option \<Rightarrow> string option \<Rightarrow> loader_info list \<times> call list" where
  "find_loaders env scheme_arg proto =
     (let group = loader_group proto;
          (scheme', matched, calls) =
            (case scheme_arg of
               None \<Rightarrow> (None, [], [])
             | Some s0 \<Rightarrow>
                 (let s = lower s0;
                      parts = rsplit1 CHR ''+'' s
                  in if length parts = 2
                     then (case get_distribution env (parts ! 1) of
                             None \<Rightarrow> (Some s, [], [GetDistribution (parts ! 1)])
                           | Some distro \<Rightarrow>
                               (Some (parts ! 0),
                                filter (\<lambda>ep. parts ! 0 = lower (name ep))
                                  (get_entry_map distro group),
                                [GetDistribution (parts ! 1),
                                 GetEntryMap (project_name distro) group]))
                     else (Some s, [], [])));
          (matched_entry_points, calls') =
            (if matched = []
             then (filter (\<lambda>ep. scheme' = None \<or> scheme' = Some (lower (name ep)))
                     (iter_entry_points env group),
                   calls @ [IterEntryPoints group])
             else (matched, calls))
      in (map (\<lambda>ep. EntryPointLoaderInfo ep proto) matched_entry_points, calls'))"

definition get_loader ::
  "pkg_resources \<Rightarrow> uri_input \<Rightarrow> string option \<Rightarrow> (error + loader) \<times> call list" where
  "get_loader env config proto =
     (case parse_uri config of
        Inl e \<Rightarrow> (Inl e, [])
      | Inr uri \<Rightarrow>
          (let requested_scheme = config_uri.scheme uri;
               (matched_loaders, calls) = find_loaders env (Some requested_scheme) proto
           in if length matched_loaders < 1
              then (Inl (LoaderNotFound requested_scheme proto), calls)
              else if length matched_loaders > 1
              then (Inl (MultipleLoadersFound requested_scheme matched_loaders proto), calls)
              else (case load env (matched_loaders ! 0) (Parsed uri) of
                      (r, _, calls') \<Rightarrow> (r, calls @ calls'))))"

definition get_sections ::
  "pkg_resources \<Rightarrow> uri_input \<Rightarrow> (error + string list) \<times> call list" where
  "get_sections env config =
     (case get_loader env config None of
        (Inl e, calls) \<Rightarrow> (Inl e, calls)
      | (Inr l, calls) \<Rightarrow> (raised (loader_get_sections l), calls))"

definition get_settings ::
  "pkg_resources \<Rightarrow> uri_input \<Rightarrow> string option \<Rightarrow> settings option
     \<Rightarrow> (error + settings) \<times> call list" where
  "get_settings env config section defaults =
     (case get_loader env config None of
        (Inl e, calls) \<Rightarrow> (Inl e, calls)
      | (Inr l, calls) \<Rightarrow> (raised (loader_get_settings l section defaults), calls))"

definition setup_logging ::
  "pkg_resources \<Rightarrow> uri_input \<Rightarrow> settings option \<Rightarrow> (error + unit) \<times> call list" where
  "setup_logging env config defaults =
     (case get_loader env config None of
        (Inl e, calls) \<Rightarrow> (Inl e, calls)
      | (Inr l, calls) \<Rightarrow> (raised (loader_setup_logging l defaults), calls))"

section \<open>Reading the calls\<close>

text \<open>
  Two readings of a list of calls: the distribution names passed to
  \<^verbatim>\<open>get_distribution\<close>, and the groups passed to \<^verbatim>\<open>get_entry_map\<close> and
  \<^verbatim>\<open>iter_entry_points\<close>.
\<close>

fun distributions_requested :: "call list \<Rightarrow> string list" where
  "distributions_requested [] = []"
| "distributions_requested (GetDistribution d # cs) = d # distributions_requested cs"
| "distributions_requested (c # cs) = distributions_requested cs"

fun groups_queried :: "call list \<Rightarrow> string list" where
  "groups_queried [] = []"
| "groups_queried (GetEntryMap d g # cs) = g # groups_queried cs"
| "groups_queried (IterEntryPoints g # cs) = g # groups_queried cs"
| "groups_queried (c # cs) = groups_queried cs"

text \<open>
  The imports among a list of calls that gave a factory, and what a load returns for an
  input when the factory of the descriptor is \<open>f\<close>: the error of the parser, or what \<open>f\<close>
  makes of the parsed URI.
\<close>

definition resolved_imports :: "pkg_resources \<Rightarrow> call list \<Rightarrow> call list" where
  "resolved_imports env calls =
     filter (\<lambda>c. case c of
                   EntryPointLoad ep \<Rightarrow>
                     (case entry_point_load env ep of Inl e \<Rightarrow> False | Inr f \<Rightarrow> True)
                 | _ \<Rightarrow> False)
       calls"

definition through :: "loader_factory \<Rightarrow> uri_input \<Rightarrow> error + loader" where
  "through f config = (case parse_uri config of Inl e \<Rightarrow> Inl e | Inr uri \<Rightarrow> raised (f uri))"

section \<open>An example environment\<close>

text \<open>
  Three installed distributions. \<^verbatim>\<open>distA\<close> and \<^verbatim>\<open>distB\<close> both register a plugin named
  \<^verbatim>\<open>ini\<close> in the unscoped group, \<^verbatim>\<open>distB\<close> also registers \<^verbatim>\<open>YAML\<close> there, \<^verbatim>\<open>distA\<close>
  registers \<^verbatim>\<open>ini\<close> for the protocol \<^verbatim>\<open>wsgi\<close>, \<^verbatim>\<open>distB\<close> registers \<^verbatim>\<open>toml\<close> for the protocol
  \<^verbatim>\<open>logging\<close>, and \<^verbatim>\<open>distC\<close> registers nothing. The distributions are found under their
  lower-case names. The object of \<^verbatim>\<open>broken:missing\<close>, to which \<^verbatim>\<open>toml\<close> refers, cannot be
  imported.
\<close>

definition demo_loader :: "string \<Rightarrow> config_uri \<Rightarrow> loader" where
  "demo_loader tag uri =
     \<lparr>loader_get_sections = Inr [tag, path uri],
      loader_get_settings =
        (\<lambda>section defaults.
           case section of
             None \<Rightarrow> (case fragment uri of
                        None \<Rightarrow> Inl NoSectionError
                      | Some f \<Rightarrow> Inr ((f, tag) # (case defaults of None \<Rightarrow> [] | Some d \<Rightarrow> d)))
           | Some s \<Rightarrow> Inr ((s, tag) # (case defaults of None \<Rightarrow> [] | Some d \<Rightarrow> d))),
      loader_setup_logging = (\<lambda>defaults. Inr ())\<rparr>"

definition ep_ini_a :: entry_point where
  "ep_ini_a = \<lparr>name = ''ini'', dist = \<lparr>project_name = ''distA''\<rparr>, target = ''dista:Loader''\<rparr>"

definition ep_ini_b :: entry_point where
  "ep_ini_b = \<lparr>name = ''ini'', dist = \<lparr>project_name = ''distB''\<rparr>, target = ''distb:Loader''\<rparr>"

definition ep_yaml_b :: entry_point where
  "ep_yaml_b = \<lparr>name = ''YAML'', dist = \<lparr>project_name = ''distB''\<rparr>, target = ''distb:Yaml''\<rparr>"

definition ep_wsgi_a :: entry_point where
  "ep_wsgi_a = \<lparr>name = ''ini'', dist = \<lparr>project_name = ''distA''\<rparr>, target = ''dista:Wsgi''\<rparr>"

definition ep_broken :: entry_point where
  "ep_broken = \<lparr>name = ''toml'', dist = \<lparr>project_name = ''distB''\<rparr>, target = ''broken:missing''\<rparr>"

definition dist_a :: distribution where
  "dist_a =
     \<lparr>project_name = ''distA'',
      get_entry_map =
        (\<lambda>g. if g = ''plaster.loader_factory'' then [ep_ini_a]
             else if g = ''plaster.loader_factory.wsgi'' then [ep_wsgi_a]
             else [])\<rparr>"

definition dist_b :: distribution where
  "dist_b =
     \<lparr>project_name = ''distB'',
      get_entry_map =
        (\<lambda>g. if g = ''plaster.loader_factory'' then [ep_ini_b, ep_yaml_b]
             else if g = ''plaster.loader_factory.logging'' then [ep_broken]
             else [])\<rparr>"

definition dist_c :: distribution where
  "dist_c = \<lparr>project_name = ''distC'', get_entry_map = (\<lambda>g. [])\<rparr>"

definition demo_env :: pkg_resources where
  "demo_env =
     \<lparr>get_distribution =
        (\<lambda>n. if n = ''dista'' then Some dist_a
             else if n = ''distb'' then Some dist_b
             else if n = ''distc'' then Some dist_c
             else None),
      iter_entry_points =
        (\<lambda>g. get_entry_map dist_a g @ get_entry_map dist_b g @ get_entry_map dist_c g),
      entry_point_load =
        (\<lambda>ep. if target ep = ''broken:missing'' then Inl (PluginError ''ImportError'')
              else Inr (\<lambda>uri. Inr (demo_loader (target ep) uri)))\<rparr>"

section \<open>Splitting and lower-casing\<close>

lemma rsplit1_length: "length (rsplit1 sep s) = 2 \<longleftrightarrow> sep \<in> set s"
  by (simp add: rsplit1_def)

lemma lower_char_plus: "lower_char c = CHR ''+'' \<longleftrightarrow> c = CHR ''+''"
  by (auto simp: lower_char_def split: option.splits if_splits)

lemma plus_in_lower: "CHR ''+'' \<in> set (lower s) \<longleftrightarrow> CHR ''+'' \<in> set s"
proof -
  have "CHR ''+'' \<in> lower_char ` set s \<longleftrightarrow> (\<exists>c \<in> set s. lower_char c = CHR ''+'')"
    unfolding image_iff by metis
  also have "\<dots> \<longleftrightarrow> CHR ''+'' \<in> set s"
    by (simp add: lower_char_plus)
  finally show ?thesis
    by (simp add: lower_def)
qed

lemma rsplit1_append:
  assumes "sep \<notin> set b"
  shows "rsplit1 sep (a @ sep # b) = [a, b]"
proof -
  have r: "rev (a @ sep # b) = rev b @ sep # rev a"
    by simp
  have t: "takeWhile (\<lambda>c. c \<noteq> sep) (rev b @ sep # rev a) = rev b"
    using assms by (auto simp: takeWhile_tail)
  have d: "dropWhile (\<lambda>c. c \<noteq> sep) (rev b @ sep # rev a) = sep # rev a"
    using assms by (auto simp: dropWhile_append3)
  show ?thesis
    unfolding rsplit1_def r t d by simp
qed

lemma lower_append: "lower (a @ b) = lower a @ lower b"
  by (simp add: lower_def)

lemma lower_Cons_plus: "lower (CHR ''+'' # s) = CHR ''+'' # lower s"
  by (simp add: lower_def lower_char_def)

lemma rsplit1_lower_scheme:
  assumes "CHR ''+'' \<notin> set dst"
  shows "rsplit1 CHR ''+'' (lower (nm @ ''+'' @ dst)) = [lower nm, lower dst]"
proof -
  have "CHR ''+'' \<notin> set (lower dst)"
    using assms by (simp add: plus_in_lower)
  then have "rsplit1 CHR ''+'' (lower nm @ CHR ''+'' # lower dst) = [lower nm, lower dst]"
    by (rule rsplit1_append)
  moreover have "lower (nm @ ''+'' @ dst) = lower nm @ CHR ''+'' # lower dst"
    by (simp add: lower_append lower_Cons_plus)
  ultimately show ?thesis
    by simp
qed

section \<open>The five ways through \<^verbatim>\<open>find_loaders\<close>\<close>

lemma find_loaders_any:
  "find_loaders env None proto =
     (map (\<lambda>ep. EntryPointLoaderInfo ep proto) (iter_entry_points env (loader_group proto)),
      [IterEntryPoints (loader_group proto)])"
  by (simp add: find_loaders_def Let_def)

lemma find_loaders_plain:
  assumes "CHR ''+'' \<notin> set s"
  shows "find_loaders env (Some s) proto =
     (map (\<lambda>ep. EntryPointLoaderInfo ep proto)
        (filter (\<lambda>ep. lower s = lower (name ep)) (iter_entry_points env (loader_group proto))),
      [IterEntryPoints (loader_group proto)])"
  using assms by (simp add: find_loaders_def Let_def rsplit1_length plus_in_lower)

lemma find_loaders_missing_dist:
  assumes "rsplit1 CHR ''+'' (lower s) = [p, d]" and "get_distribution env d = None"
  shows "find_loaders env (Some s) proto =
     (map (\<lambda>ep. EntryPointLoaderInfo ep proto)
        (filter (\<lambda>ep. lower s = lower (name ep)) (iter_entry_points env (loader_group proto))),
      [GetDistribution d, IterEntryPoints (loader_group proto)])"
  using assms by (simp add: find_loaders_def Let_def)

lemma find_loaders_scoped:
  assumes "rsplit1 CHR ''+'' (lower s) = [p, d]" and "get_distribution env d = Some distro"
    and "filter (\<lambda>ep. p = lower (name ep)) (get_entry_map distro (loader_group proto)) \<noteq> []"
  shows "find_loaders env (Some s) proto =
     (map (\<lambda>ep. EntryPointLoaderInfo ep proto)
        (filter (\<lambda>ep. p = lower (name ep)) (get_entry_map distro (loader_group proto))),
      [GetDistribution d, GetEntryMap (project_name distro) (loader_group proto)])"
  using assms by (simp add: find_loaders_def Let_def)

lemma find_loaders_fallback:
  assumes "rsplit1 CHR ''+'' (lower s) = [p, d]" and "get_distribution env d = Some distro"
    and "filter (\<lambda>ep. p = lower (name ep)) (get_entry_map distro (loader_group proto)) = []"
  shows "find_loaders env (Some s) proto =
     (map (\<lambda>ep. EntryPointLoaderInfo ep proto)
        (filter (\<lambda>ep. p = lower (name ep)) (iter_entry_points env (loader_group proto))),
      [GetDistribution d, GetEntryMap (project_name distro) (loader_group proto),
       IterEntryPoints (loader_group proto)])"
  using assms by (simp add: find_loaders_def Let_def)

lemma rsplit1_two:
  assumes "sep \<in> set s"
  obtains p d where "rsplit1 sep s = [p, d]"
  using assms by (simp add: rsplit1_def)

lemma find_loaders_cases [consumes 0, case_names any plain missing scoped fallback]:
  obtains
    (any) "sch = None"
  | (plain) s where "sch = Some s" and "CHR ''+'' \<notin> set s"
  | (missing) s p d where "sch = Some s" and "rsplit1 CHR ''+'' (lower s) = [p, d]"
      and "get_distribution env d = None"
  | (scoped) s p d distro where "sch = Some s" and "rsplit1 CHR ''+'' (lower s) = [p, d]"
      and "get_distribution env d = Some distro"
      and "filter (\<lambda>ep. p = lower (name ep)) (get_entry_map distro g) \<noteq> []"
  | (fallback) s p d distro where "sch = Some s" and "rsplit1 CHR ''+'' (lower s) = [p, d]"
      and "get_distribution env d = Some distro"
      and "filter (\<lambda>ep. p = lower (name ep)) (get_entry_map distro g) = []"
proof (cases sch)
  case None
  then show ?thesis by (rule any)
next
  case (Some s)
  show ?thesis
  proof (cases "CHR ''+'' \<in> set s")
    case False
    with Some show ?thesis by (rule plain)
  next
    case True
    then have "CHR ''+'' \<in> set (lower s)"
      by (simp add: plus_in_lower)
    then obtain p d where pd: "rsplit1 CHR ''+'' (lower s) = [p, d]"
      by (rule rsplit1_two)
    show ?thesis
    proof (cases "get_distribution env d")
      case None
      with Some pd show ?thesis by (rule missing)
    next
      case (Some distro)
      note dist = this
      show ?thesis
      proof (cases "filter (\<lambda>ep. p = lower (name ep)) (get_entry_map distro g) = []")
        case True
        with \<open>sch = Some s\<close> pd dist show ?thesis by (rule fallback)
      next
        case False
        with \<open>sch = Some s\<close> pd dist show ?thesis by (rule scoped)
      qed
    qed
  qed
qed

lemma find_loaders_built:
  "\<exists>eps. fst (find_loaders env sch proto) = map (\<lambda>ep. EntryPointLoaderInfo ep proto) eps"
  by (cases rule: find_loaders_cases [where sch = sch and env = env and g = "loader_group proto"])
    (auto simp: find_loaders_any find_loaders_plain find_loaders_missing_dist
       find_loaders_scoped find_loaders_fallback)

text \<open>The definitions of the example environment, for evaluation.\<close>

lemmas demo_defs = demo_env_def dist_a_def dist_b_def dist_c_def ep_ini_a_def ep_ini_b_def
  ep_yaml_b_def ep_wsgi_a_def loader_group_def lower_def lower_char_def

section \<open>A distribution suffix that does not resolve\<close>

text \<open>
  C3. A scheme \<^verbatim>\<open>name+dist\<close> whose distribution \<^verbatim>\<open>dist\<close> is not installed: the lookup of
  the distribution fails, no error is raised, and \<^verbatim>\<open>find_loaders\<close> searches the entry points
  of all distributions in the group for a plugin whose name equals, case-insensitively, the
  whole scheme \<^verbatim>\<open>name+dist\<close>.
\<close>

theorem unresolved_distribution_falls_through:
  assumes "CHR ''+'' \<notin> set dst" and "get_distribution env (lower dst) = None"
  shows "find_loaders env (Some (nm @ ''+'' @ dst)) proto =
     (map (\<lambda>ep. EntryPointLoaderInfo ep proto)
        (filter (\<lambda>ep. lower (nm @ ''+'' @ dst) = lower (name ep))
           (iter_entry_points env (loader_group proto))),
      [GetDistribution (lower dst), IterEntryPoints (loader_group proto)])"
  using rsplit1_lower_scheme [OF assms(1)] assms(2) by (rule find_loaders_missing_dist)

theorem unresolved_distribution_falls_through_witness:
  "CHR ''+'' \<notin> set ''NoDist'' \<and> get_distribution demo_env (lower ''NoDist'') = None \<and>
   find_loaders demo_env (Some (''ini'' @ ''+'' @ ''NoDist'')) None =
     ([], [GetDistribution ''nodist'', IterEntryPoints ''plaster.loader_factory''])"
  using unresolved_distribution_falls_through [of "''NoDist''" demo_env "''ini''" None]
  by (simp add: demo_defs)

section \<open>A distribution that resolves but has no such plugin\<close>

text \<open>
  C4. A scheme \<^verbatim>\<open>name+dist\<close> whose distribution \<^verbatim>\<open>dist\<close> is installed but registers no
  plugin named \<^verbatim>\<open>name\<close> (case-insensitively) in the group: the search over all
  distributions that follows compares with the prefix \<^verbatim>\<open>name\<close>, not with \<^verbatim>\<open>name+dist\<close>, so
  that plugins of that name from other distributions are returned.
\<close>

theorem empty_distribution_falls_back_to_prefix:
  assumes "CHR ''+'' \<notin> set dst" and "get_distribution env (lower dst) = Some distro"
    and "\<forall>ep \<in> set (get_entry_map distro (loader_group proto)). lower nm \<noteq> lower (name ep)"
  shows "find_loaders env (Some (nm @ ''+'' @ dst)) proto =
     (map (\<lambda>ep. EntryPointLoaderInfo ep proto)
        (filter (\<lambda>ep. lower nm = lower (name ep))
           (iter_entry_points env (loader_group proto))),
      [GetDistribution (lower dst), GetEntryMap (project_name distro) (loader_group proto),
       IterEntryPoints (loader_group proto)])"
proof -
  have "filter (\<lambda>ep. lower nm = lower (name ep)) (get_entry_map distro (loader_group proto)) = []"
    using assms(3) by (simp add: filter_empty_conv)
  with rsplit1_lower_scheme [OF assms(1)] assms(2) show ?thesis
    by (rule find_loaders_fallback)
qed

theorem empty_distribution_falls_back_to_prefix_witness:
  "CHR ''+'' \<notin> set ''DistC'' \<and> get_distribution demo_env (lower ''DistC'') = Some dist_c \<and>
   list_all (\<lambda>ep. lower ''ini'' \<noteq> lower (name ep)) (get_entry_map dist_c (loader_group None)) \<and>
   find_loaders demo_env (Some (''ini'' @ ''+'' @ ''DistC'')) None =
     ([EntryPointLoaderInfo ep_ini_a None, EntryPointLoaderInfo ep_ini_b None],
      [GetDistribution ''distc'', GetEntryMap ''distC'' ''plaster.loader_factory'',
       IterEntryPoints ''plaster.loader_factory''])"
  using empty_distribution_falls_back_to_prefix [of "''DistC''" demo_env dist_c None "''ini''"]
  by (simp add: demo_defs)

section \<open>The descriptors returned\<close>

text \<open>
  C7. Every descriptor that \<^verbatim>\<open>find_loaders\<close> returns has as its scheme the name of its
  entry point, a \<^verbatim>\<open>+\<close> and the project name of the distribution owning the entry point,
  and as its protocol the protocol of the query.
\<close>

theorem loader_info_scheme_protocol:
  "\<forall>info \<in> set (fst (find_loaders env sch proto)).
     loader_info.scheme info
       = name (entry_point info) @ ''+'' @ project_name (dist (entry_point info))
     \<and> protocol info = proto"
proof
  fix info
  assume "info \<in> set (fst (find_loaders env sch proto))"
  moreover obtain eps where
    "fst (find_loaders env sch proto) = map (\<lambda>ep. EntryPointLoaderInfo ep proto) eps"
    using find_loaders_built by blast
  ultimately obtain ep where "info = EntryPointLoaderInfo ep proto"
    by auto
  then show "loader_info.scheme info
       = name (entry_point info) @ ''+'' @ project_name (dist (entry_point info))
     \<and> protocol info = proto"
    by (simp add: EntryPointLoaderInfo_def)
qed

theorem loader_info_scheme_protocol_witness:
  "map loader_info.scheme (fst (find_loaders demo_env None None))
     = [''ini+distA'', ''ini+distB'', ''YAML+distB'']
   \<and> map protocol (fst (find_loaders demo_env (Some ''INI'') (Some ''wsgi''))) = [Some ''wsgi'']
   \<and> map loader_info.scheme (fst (find_loaders demo_env (Some ''INI'') (Some ''wsgi'')))
     = [''ini+distA'']"
  using loader_info_scheme_protocol [of demo_env None None]
    loader_info_scheme_protocol [of demo_env "Some ''INI''" "Some ''wsgi''"]
  by (simp add: find_loaders_any find_loaders_plain EntryPointLoaderInfo_def demo_defs)

section \<open>One group per query\<close>

lemma find_loaders_groups:
  "set (groups_queried (snd (find_loaders env sch proto))) = {loader_group proto}"
  by (cases rule: find_loaders_cases [where sch = sch and env = env and g = "loader_group proto"])
    (simp_all add: find_loaders_any find_loaders_plain find_loaders_missing_dist
       find_loaders_scoped find_loaders_fallback)

lemma find_loaders_registered:
  assumes "info \<in> set (fst (find_loaders env sch proto))"
  shows "entry_point info \<in> set (iter_entry_points env (loader_group proto))
     \<or> (\<exists>d distro. get_distribution env d = Some distro
           \<and> entry_point info \<in> set (get_entry_map distro (loader_group proto)))"
proof (cases rule: find_loaders_cases [where sch = sch and env = env and g = "loader_group proto"])
  case any
  with assms show ?thesis
    by (auto simp: find_loaders_any EntryPointLoaderInfo_def)
next
  case (plain s)
  with assms show ?thesis
    by (auto simp: find_loaders_plain EntryPointLoaderInfo_def)
next
  case (missing s p d)
  with assms show ?thesis
    by (auto simp: find_loaders_missing_dist EntryPointLoaderInfo_def)
next
  case (scoped s p d distro)
  from assms have "entry_point info \<in> set (get_entry_map distro (loader_group proto))"
    unfolding scoped(1) find_loaders_scoped [OF scoped(2-4)]
    by (auto simp: EntryPointLoaderInfo_def)
  with scoped(3) show ?thesis
    by blast
next
  case (fallback s p d distro)
  from assms have "entry_point info \<in> set (iter_entry_points env (loader_group proto))"
    unfolding fallback(1) find_loaders_fallback [OF fallback(2-4)]
    by (auto simp: EntryPointLoaderInfo_def)
  then show ?thesis
    by blast
qed

lemma loader_group_scoped_differs: "loader_group (Some p) \<noteq> loader_group None"
  by (simp add: loader_group_def)

lemma loader_group_inj: "loader_group p = loader_group q \<longleftrightarrow> p = q"
  by (cases p; cases q) (auto simp: loader_group_def)

text \<open>
  C5. Every call that \<^verbatim>\<open>find_loaders\<close> makes with a group passes the same one: the
  unscoped name without a protocol, that name followed by a dot and the protocol otherwise.
  The two kinds of names differ, and every entry point returned is registered under the
  group of the query, in the listing of all distributions or in a distribution that resolves.
  So a query with a protocol returns no entry registered only under the unscoped group, and
  a query without one returns no entry registered only under a protocol's group.
\<close>

theorem find_loaders_one_group:
  "set (groups_queried (snd (find_loaders env sch proto))) = {loader_group proto}
   \<and> loader_group None = ''plaster.loader_factory''
   \<and> (\<forall>p. loader_group (Some p) = ''plaster.loader_factory'' @ ''.'' @ p)
   \<and> (\<forall>p. loader_group (Some p) \<noteq> loader_group None)
   \<and> (\<forall>info \<in> set (fst (find_loaders env sch proto)).
         entry_point info \<in> set (iter_entry_points env (loader_group proto))
         \<or> (\<exists>d distro. get_distribution env d = Some distro
               \<and> entry_point info \<in> set (get_entry_map distro (loader_group proto))))"
  using find_loaders_groups [of env sch proto] find_loaders_registered [of _ env sch proto]
    loader_group_scoped_differs
  by (simp add: loader_group_def)

theorem find_loaders_one_group_witness:
  "groups_queried (snd (find_loaders demo_env (Some ''ini+DistA'') (Some ''wsgi'')))
     = [''plaster.loader_factory.wsgi'']
   \<and> map entry_point (fst (find_loaders demo_env None (Some ''wsgi''))) = [ep_wsgi_a]
   \<and> map entry_point (fst (find_loaders demo_env None None)) = [ep_ini_a, ep_ini_b, ep_yaml_b]
   \<and> ep_wsgi_a \<notin> set (iter_entry_points demo_env (loader_group None))
   \<and> set (iter_entry_points demo_env (loader_group (Some ''wsgi''))) = {ep_wsgi_a}"
  using find_loaders_one_group [of demo_env "Some ''ini+DistA''" "Some ''wsgi''"]
    find_loaders_one_group [of demo_env None "Some ''wsgi''"]
    find_loaders_one_group [of demo_env None None]
  by (simp add: find_loaders_any find_loaders_def rsplit1_def EntryPointLoaderInfo_def demo_defs)

section \<open>When a distribution is looked up\<close>

lemma distributions_requested_find_loaders:
  "distributions_requested (snd (find_loaders env (Some s) proto))
     = (if CHR ''+'' \<in> set s then [last (rsplit1 CHR ''+'' (lower s))] else [])"
proof (cases rule: find_loaders_cases
    [where sch = "Some s" and env = env and g = "loader_group proto"])
  case any
  then show ?thesis by simp
next
  case (plain t)
  then show ?thesis
    by (simp add: find_loaders_plain)
next
  case (missing t p d)
  then have "CHR ''+'' \<in> set s"
    using rsplit1_length [of "CHR ''+''" "lower s"] by (simp add: plus_in_lower)
  with missing show ?thesis
    by (simp add: find_loaders_missing_dist)
next
  case (scoped t p d distro)
  then have "CHR ''+'' \<in> set s"
    using rsplit1_length [of "CHR ''+''" "lower s"] by (simp add: plus_in_lower)
  with scoped show ?thesis
    by (simp add: find_loaders_scoped)
next
  case (fallback t p d distro)
  then have "CHR ''+'' \<in> set s"
    using rsplit1_length [of "CHR ''+''" "lower s"] by (simp add: plus_in_lower)
  with fallback show ?thesis
    by (simp add: find_loaders_fallback)
qed

text \<open>
  C2, as the code has it. The claim says that the suffix is taken as a distribution name
  precisely when the scheme has exactly one \<^verbatim>\<open>+\<close>. The code splits at the last \<^verbatim>\<open>+\<close>, so a
  scheme with two of them has its last part looked up as well:
\<close>

theorem exactly_one_plus_counterexample:
  "count_list ''ini+x+dista'' CHR ''+'' = 2
   \<and> distributions_requested (snd (find_loaders demo_env (Some ''ini+x+dista'') None))
       = [''dista'']"
  by (simp add: find_loaders_def Let_def rsplit1_def demo_defs)

text \<open>
  C2, amended. For a scheme that is not \<^verbatim>\<open>None\<close>, \<^verbatim>\<open>find_loaders\<close> looks a distribution
  up precisely when the scheme contains at least one \<^verbatim>\<open>+\<close>, and then exactly once, under
  the lower-cased part after the last \<^verbatim>\<open>+\<close>; without a \<^verbatim>\<open>+\<close> no distribution is looked
  up.
\<close>

theorem distribution_lookup_iff_plus:
  "distributions_requested (snd (find_loaders env (Some s) proto))
     = (if CHR ''+'' \<in> set s then [last (rsplit1 CHR ''+'' (lower s))] else [])
   \<and> (\<forall>nm dst. s = nm @ ''+'' @ dst \<and> CHR ''+'' \<notin> set dst \<longrightarrow>
         distributions_requested (snd (find_loaders env (Some s) proto)) = [lower dst])"
proof (intro conjI allI impI)
  show "distributions_requested (snd (find_loaders env (Some s) proto))
     = (if CHR ''+'' \<in> set s then [last (rsplit1 CHR ''+'' (lower s))] else [])"
    by (rule distributions_requested_find_loaders)
next
  fix nm dst
  assume a: "s = nm @ ''+'' @ dst \<and> CHR ''+'' \<notin> set dst"
  then have "rsplit1 CHR ''+'' (lower s) = [lower nm, lower dst]"
    using rsplit1_lower_scheme [of dst nm] by simp
  moreover from a have "CHR ''+'' \<in> set s"
    by simp
  ultimately show "distributions_requested (snd (find_loaders env (Some s) proto)) = [lower dst]"
    by (simp add: distributions_requested_find_loaders)
qed

theorem distribution_lookup_iff_plus_witness:
  "distributions_requested (snd (find_loaders demo_env (Some ''ini'') None)) = []
   \<and> distributions_requested (snd (find_loaders demo_env (Some ''ini+DistA'') None)) = [''dista'']
   \<and> distributions_requested (snd (find_loaders demo_env (Some ''ini+x+DistA'') None))
       = [''dista'']"
  using distribution_lookup_iff_plus [of demo_env "''ini''" None]
    distribution_lookup_iff_plus [of demo_env "''ini+DistA''" None]
    distribution_lookup_iff_plus [of demo_env "''ini+x+DistA''" None]
  by (simp add: rsplit1_def lower_def lower_char_def)

section \<open>Resolution to one loader\<close>

lemma find_loaders_case_variant:
  assumes "lower s = lower t"
  shows "find_loaders env (Some s) proto = find_loaders env (Some t) proto"
  using assms by (simp add: find_loaders_def)

lemma load_fresh:
  "load env (EntryPointLoaderInfo ep proto) (Parsed uri) =
     (case entry_point_load env ep of
        Inl e \<Rightarrow> (Inl (Raised e), EntryPointLoaderInfo ep proto, [EntryPointLoad ep])
      | Inr f \<Rightarrow> (raised (f uri), (EntryPointLoaderInfo ep proto)\<lparr>factory_memo := Some f\<rparr>,
                  [EntryPointLoad ep]))"
  by (simp add: load_def parse_uri_def factory_def EntryPointLoaderInfo_def split: sum.splits)

lemma get_loader_parsed:
  assumes "parse_uri config = Inr uri"
    and "find_loaders env (Some (config_uri.scheme uri)) proto = (matched, calls)"
  shows "get_loader env config proto =
     (if length matched < 1
      then (Inl (LoaderNotFound (config_uri.scheme uri) proto), calls)
      else if length matched > 1
      then (Inl (MultipleLoadersFound (config_uri.scheme uri) matched proto), calls)
      else (case load env (matched ! 0) (Parsed uri) of (r, _, calls') \<Rightarrow> (r, calls @ calls')))"
  using assms by (simp add: get_loader_def Let_def)

text \<open>
  C1. Once the URI is parsed, \<^verbatim>\<open>get_loader\<close> queries \<^verbatim>\<open>find_loaders\<close> with the scheme as it
  was requested. With no match it fails with \<^verbatim>\<open>LoaderNotFound\<close> carrying that scheme and the
  protocol; with more than one it fails with \<^verbatim>\<open>MultipleLoadersFound\<close> carrying the scheme,
  all the matches and the protocol; with exactly one it imports the entry point of that match
  and returns what its factory makes of the parsed URI (exceptions of the import and of the
  factory pass through).
\<close>

theorem get_loader_outcomes:
  assumes "parse_uri config = Inr uri"
    and "find_loaders env (Some (config_uri.scheme uri)) proto = (matched, calls)"
  shows "(matched = [] \<longrightarrow>
            get_loader env config proto
              = (Inl (LoaderNotFound (config_uri.scheme uri) proto), calls))
       \<and> (length matched > 1 \<longrightarrow>
            get_loader env config proto
              = (Inl (MultipleLoadersFound (config_uri.scheme uri) matched proto), calls))
       \<and> (\<forall>m. matched = [m] \<longrightarrow>
            get_loader env config proto
              = (case entry_point_load env (entry_point m) of
                   Inl e \<Rightarrow> Inl (Raised e)
                 | Inr f \<Rightarrow> raised (f uri),
                 calls @ [EntryPointLoad (entry_point m)]))"
proof (intro conjI allI impI)
  assume "matched = []"
  then show "get_loader env config proto
      = (Inl (LoaderNotFound (config_uri.scheme uri) proto), calls)"
    by (simp add: get_loader_parsed [OF assms])
next
  assume "length matched > 1"
  then show "get_loader env config proto
      = (Inl (MultipleLoadersFound (config_uri.scheme uri) matched proto), calls)"
    by (auto simp: get_loader_parsed [OF assms])
next
  fix m
  assume m: "matched = [m]"
  obtain eps where
    "fst (find_loaders env (Some (config_uri.scheme uri)) proto)
       = map (\<lambda>ep. EntryPointLoaderInfo ep proto) eps"
    using find_loaders_built by blast
  with assms(2) m obtain ep where ep: "m = EntryPointLoaderInfo ep proto"
    by auto
  then have "entry_point m = ep"
    by (simp add: EntryPointLoaderInfo_def)
  with m ep show "get_loader env config proto
      = (case entry_point_load env (entry_point m) of
           Inl e \<Rightarrow> Inl (Raised e)
         | Inr f \<Rightarrow> raised (f uri),
         calls @ [EntryPointLoad (entry_point m)])"
    by (simp add: get_loader_parsed [OF assms] load_fresh split: sum.splits)
qed

theorem get_loader_outcomes_witness:
  "parse_uri (Raw ''json:app.json'')
     = Inr \<lparr>config_uri.scheme = ''json'', path = ''app.json'', fragment = None\<rparr>
   \<and> find_loaders demo_env (Some ''json'') None = ([], [IterEntryPoints ''plaster.loader_factory''])
   \<and> get_loader demo_env (Raw ''json:app.json'') None
     = (Inl (LoaderNotFound ''json'' None), [IterEntryPoints ''plaster.loader_factory''])
   \<and> parse_uri (Raw ''INI:app.ini'')
     = Inr \<lparr>config_uri.scheme = ''INI'', path = ''app.ini'', fragment = None\<rparr>
   \<and> find_loaders demo_env (Some ''INI'') None
     = ([EntryPointLoaderInfo ep_ini_a None, EntryPointLoaderInfo ep_ini_b None],
        [IterEntryPoints ''plaster.loader_factory''])
   \<and> get_loader demo_env (Raw ''INI:app.ini'') None
     = (Inl (MultipleLoadersFound ''INI''
               [EntryPointLoaderInfo ep_ini_a None, EntryPointLoaderInfo ep_ini_b None] None),
        [IterEntryPoints ''plaster.loader_factory''])
   \<and> parse_uri (Raw ''ini+distA:app.ini#main'')
     = Inr \<lparr>config_uri.scheme = ''ini+distA'', path = ''app.ini'', fragment = Some ''main''\<rparr>
   \<and> find_loaders demo_env (Some ''ini+distA'') None
     = ([EntryPointLoaderInfo ep_ini_a None],
        [GetDistribution ''dista'', GetEntryMap ''distA'' ''plaster.loader_factory''])
   \<and> get_loader demo_env (Raw ''ini+distA:app.ini#main'') None
     = (Inr (demo_loader ''dista:Loader''
          \<lparr>config_uri.scheme = ''ini+distA'', path = ''app.ini'', fragment = Some ''main''\<rparr>),
        [GetDistribution ''dista'', GetEntryMap ''distA'' ''plaster.loader_factory'',
         EntryPointLoad ep_ini_a])"
proof -
  have p0: "parse_uri (Raw ''json:app.json'')
     = Inr \<lparr>config_uri.scheme = ''json'', path = ''app.json'', fragment = None\<rparr>"
    by (simp add: parse_uri_def)
  have f0: "find_loaders demo_env
       (Some (config_uri.scheme \<lparr>config_uri.scheme = ''json'', path = ''app.json'', fragment = None\<rparr>))
       None
     = ([], [IterEntryPoints ''plaster.loader_factory''])"
    by (simp add: find_loaders_plain demo_defs)
  have p1: "parse_uri (Raw ''INI:app.ini'')
     = Inr \<lparr>config_uri.scheme = ''INI'', path = ''app.ini'', fragment = None\<rparr>"
    by (simp add: parse_uri_def)
  have f1: "find_loaders demo_env
       (Some (config_uri.scheme \<lparr>config_uri.scheme = ''INI'', path = ''app.ini'', fragment = None\<rparr>))
       None
     = ([EntryPointLoaderInfo ep_ini_a None, EntryPointLoaderInfo ep_ini_b None],
        [IterEntryPoints ''plaster.loader_factory''])"
    by (simp add: find_loaders_plain demo_defs)
  have p2: "parse_uri (Raw ''ini+distA:app.ini#main'')
     = Inr \<lparr>config_uri.scheme = ''ini+distA'', path = ''app.ini'', fragment = Some ''main''\<rparr>"
    by (simp add: parse_uri_def)
  have f2: "find_loaders demo_env
       (Some (config_uri.scheme
          \<lparr>config_uri.scheme = ''ini+distA'', path = ''app.ini'', fragment = Some ''main''\<rparr>))
       None
     = ([EntryPointLoaderInfo ep_ini_a None],
        [GetDistribution ''dista'', GetEntryMap ''distA'' ''plaster.loader_factory''])"
    by (simp add: find_loaders_def Let_def rsplit1_def demo_defs)
  have l2: "entry_point_load demo_env (entry_point (EntryPointLoaderInfo ep_ini_a None))
     = Inr (\<lambda>uri. Inr (demo_loader ''dista:Loader'' uri))"
    by (simp add: EntryPointLoaderInfo_def demo_env_def ep_ini_a_def)
  show ?thesis
    using get_loader_outcomes [OF p0 f0] get_loader_outcomes [OF p1 f1]
      get_loader_outcomes [OF p2 f2] p0 p1 p2 f0 f1 f2 l2
    by (simp add: raised_def EntryPointLoaderInfo_def)
qed

section \<open>Case-insensitive matching\<close>

lemma find_loaders_matches_plain:
  assumes "CHR ''+'' \<notin> set s"
  shows "fst (find_loaders env (Some s) proto) =
     map (\<lambda>ep. EntryPointLoaderInfo ep proto)
       (filter (\<lambda>ep. lower s = lower (name ep)) (iter_entry_points env (loader_group proto)))"
  using assms by (simp add: find_loaders_plain)

lemma find_loaders_matches_suffixed:
  assumes "CHR ''+'' \<notin> set dst"
  shows "fst (find_loaders env (Some (nm @ ''+'' @ dst)) proto) =
     map (\<lambda>ep. EntryPointLoaderInfo ep proto)
       (case get_distribution env (lower dst) of
          None \<Rightarrow>
            filter (\<lambda>ep. lower (nm @ ''+'' @ dst) = lower (name ep))
              (iter_entry_points env (loader_group proto))
        | Some distro \<Rightarrow>
            if filter (\<lambda>ep. lower nm = lower (name ep))
                 (get_entry_map distro (loader_group proto)) \<noteq> []
            then filter (\<lambda>ep. lower nm = lower (name ep))
                   (get_entry_map distro (loader_group proto))
            else filter (\<lambda>ep. lower nm = lower (name ep))
                   (iter_entry_points env (loader_group proto)))"
proof (cases "get_distribution env (lower dst)")
  case None
  have "find_loaders env (Some (nm @ ''+'' @ dst)) proto =
     (map (\<lambda>ep. EntryPointLoaderInfo ep proto)
        (filter (\<lambda>ep. lower (nm @ ''+'' @ dst) = lower (name ep))
           (iter_entry_points env (loader_group proto))),
      [GetDistribution (lower dst), IterEntryPoints (loader_group proto)])"
    using rsplit1_lower_scheme [OF assms, of nm] None by (rule find_loaders_missing_dist)
  then show ?thesis
    unfolding None by simp
next
  case (Some distro)
  note parts = rsplit1_lower_scheme [OF assms, of nm]
  show ?thesis
  proof (cases "filter (\<lambda>ep. lower nm = lower (name ep))
      (get_entry_map distro (loader_group proto)) = []")
    case True
    show ?thesis
      unfolding find_loaders_fallback [OF parts Some True] Some using True by simp
  next
    case False
    show ?thesis
      unfolding find_loaders_scoped [OF parts Some False] Some using False by simp
  qed
qed

lemma get_loader_case_variant:
  assumes "parse_uri config = Inr uri" and "parse_uri config' = Inr uri'"
    and "lower (config_uri.scheme uri) = lower (config_uri.scheme uri')"
  shows "get_loader env config' proto
          = (case find_loaders env (Some (config_uri.scheme uri)) proto of
               (matched, calls) \<Rightarrow>
                 if length matched < 1
                 then (Inl (LoaderNotFound (config_uri.scheme uri') proto), calls)
                 else if length matched > 1
                 then (Inl (MultipleLoadersFound (config_uri.scheme uri') matched proto), calls)
                 else (case load env (matched ! 0) (Parsed uri') of
                         (r, _, calls') \<Rightarrow> (r, calls @ calls')))"
proof -
  from assms(3) have "lower (config_uri.scheme uri') = lower (config_uri.scheme uri)"
    by simp
  then have same: "find_loaders env (Some (config_uri.scheme uri')) proto
      = find_loaders env (Some (config_uri.scheme uri)) proto"
    by (rule find_loaders_case_variant)
  obtain matched calls where
    f: "find_loaders env (Some (config_uri.scheme uri)) proto = (matched, calls)"
    by (cases "find_loaders env (Some (config_uri.scheme uri)) proto")
  from same f have "find_loaders env (Some (config_uri.scheme uri')) proto = (matched, calls)"
    by simp
  with assms(2) have "get_loader env config' proto =
     (if length matched < 1
      then (Inl (LoaderNotFound (config_uri.scheme uri') proto), calls)
      else if length matched > 1
      then (Inl (MultipleLoadersFound (config_uri.scheme uri') matched proto), calls)
      else (case load env (matched ! 0) (Parsed uri') of (r, _, calls') \<Rightarrow> (r, calls @ calls')))"
    by (rule get_loader_parsed)
  with f show ?thesis
    by simp
qed

text \<open>
  C6. A plugin matches a scheme when its lower-cased name equals the lower-cased scheme, in
  both searches. For a scheme without \<^verbatim>\<open>+\<close> the matches are the entry points of the group
  whose lower-cased name is the lower-cased scheme. For a scheme \<^verbatim>\<open>name+dist\<close> whose
  distribution resolves they are the entry points of that distribution whose lower-cased name
  is the lower-cased \<^verbatim>\<open>name\<close>, or, when there are none, the entry points of the group with
  that property; when the distribution does not resolve the whole scheme is compared in the
  same way. So two schemes that agree up to the case of their letters give the same result in
  \<^verbatim>\<open>find_loaders\<close>, matches and calls alike; without a scheme every entry point of the group
  is matched; and \<^verbatim>\<open>get_loader\<close> on a URI selects among the matches found for any URI whose
  scheme is a case variant of its own (the scheme it reports in an error and the URI it hands
  to the factory stay as they were requested).
\<close>

theorem scheme_matching_case_insensitive:
  "(CHR ''+'' \<notin> set s \<longrightarrow>
      fst (find_loaders env (Some s) proto) =
        map (\<lambda>ep. EntryPointLoaderInfo ep proto)
          (filter (\<lambda>ep. lower s = lower (name ep))
             (iter_entry_points env (loader_group proto))))
   \<and> (\<forall>nm dst. s = nm @ ''+'' @ dst \<and> CHR ''+'' \<notin> set dst \<longrightarrow>
        fst (find_loaders env (Some s) proto) =
          map (\<lambda>ep. EntryPointLoaderInfo ep proto)
            (case get_distribution env (lower dst) of
               None \<Rightarrow>
                 filter (\<lambda>ep. lower s = lower (name ep))
                   (iter_entry_points env (loader_group proto))
             | Some distro \<Rightarrow>
                 if filter (\<lambda>ep. lower nm = lower (name ep))
                      (get_entry_map distro (loader_group proto)) \<noteq> []
                 then filter (\<lambda>ep. lower nm = lower (name ep))
                        (get_entry_map distro (loader_group proto))
                 else filter (\<lambda>ep. lower nm = lower (name ep))
                        (iter_entry_points env (loader_group proto))))
   \<and> (lower s = lower t \<longrightarrow> find_loaders env (Some s) proto = find_loaders env (Some t) proto)
   \<and> find_loaders env None proto
       = (map (\<lambda>ep. EntryPointLoaderInfo ep proto) (iter_entry_points env (loader_group proto)),
          [IterEntryPoints (loader_group proto)])
   \<and> (parse_uri config = Inr uri \<and> parse_uri config' = Inr uri'
        \<and> lower (config_uri.scheme uri) = lower (config_uri.scheme uri') \<longrightarrow>
        get_loader env config' proto
          = (case find_loaders env (Some (config_uri.scheme uri)) proto of
               (matched, calls) \<Rightarrow>
                 if length matched < 1
                 then (Inl (LoaderNotFound (config_uri.scheme uri') proto), calls)
                 else if length matched > 1
                 then (Inl (MultipleLoadersFound (config_uri.scheme uri') matched proto), calls)
                 else (case load env (matched ! 0) (Parsed uri') of
                         (r, _, calls') \<Rightarrow> (r, calls @ calls'))))"
proof (intro conjI impI allI)
  assume "CHR ''+'' \<notin> set s"
  then show "fst (find_loaders env (Some s) proto) =
        map (\<lambda>ep. EntryPointLoaderInfo ep proto)
          (filter (\<lambda>ep. lower s = lower (name ep))
             (iter_entry_points env (loader_group proto)))"
    by (rule find_loaders_matches_plain)
next
  fix nm dst
  assume a: "s = nm @ ''+'' @ dst \<and> CHR ''+'' \<notin> set dst"
  then have d: "CHR ''+'' \<notin> set dst" and s: "s = nm @ ''+'' @ dst"
    by simp_all
  show "fst (find_loaders env (Some s) proto) =
          map (\<lambda>ep. EntryPointLoaderInfo ep proto)
            (case get_distribution env (lower dst) of
               None \<Rightarrow>
                 filter (\<lambda>ep. lower s = lower (name ep))
                   (iter_entry_points env (loader_group proto))
             | Some distro \<Rightarrow>
                 if filter (\<lambda>ep. lower nm = lower (name ep))
                      (get_entry_map distro (loader_group proto)) \<noteq> []
                 then filter (\<lambda>ep. lower nm = lower (name ep))
                        (get_entry_map distro (loader_group proto))
                 else filter (\<lambda>ep. lower nm = lower (name ep))
                        (iter_entry_points env (loader_group proto)))"
    unfolding s by (rule find_loaders_matches_suffixed [OF d])
next
  assume "lower s = lower t"
  then show "find_loaders env (Some s) proto = find_loaders env (Some t) proto"
    by (rule find_loaders_case_variant)
next
  show "find_loaders env None proto
       = (map (\<lambda>ep. EntryPointLoaderInfo ep proto) (iter_entry_points env (loader_group proto)),
          [IterEntryPoints (loader_group proto)])"
    by (rule find_loaders_any)
next
  assume "parse_uri config = Inr uri \<and> parse_uri config' = Inr uri'
        \<and> lower (config_uri.scheme uri) = lower (config_uri.scheme uri')"
  then have "parse_uri config = Inr uri" and "parse_uri config' = Inr uri'"
    and "lower (config_uri.scheme uri) = lower (config_uri.scheme uri')"
    by simp_all
  then show "get_loader env config' proto
          = (case find_loaders env (Some (config_uri.scheme uri)) proto of
               (matched, calls) \<Rightarrow>
                 if length matched < 1
                 then (Inl (LoaderNotFound (config_uri.scheme uri') proto), calls)
                 else if length matched > 1
                 then (Inl (MultipleLoadersFound (config_uri.scheme uri') matched proto), calls)
                 else (case load env (matched ! 0) (Parsed uri') of
                         (r, _, calls') \<Rightarrow> (r, calls @ calls')))"
    by (rule get_loader_case_variant)
qed

theorem scheme_matching_case_insensitive_witness:
  "CHR ''+'' \<notin> set ''yaml''
   \<and> fst (find_loaders demo_env (Some ''yaml'') None) = [EntryPointLoaderInfo ep_yaml_b None]
   \<and> CHR ''+'' \<notin> set ''DistB''
   \<and> fst (find_loaders demo_env (Some (''Yaml'' @ ''+'' @ ''DistB'')) None)
       = [EntryPointLoaderInfo ep_yaml_b None]
   \<and> lower ''YAML'' = lower ''yaml''
   \<and> find_loaders demo_env (Some ''YAML'') None = find_loaders demo_env (Some ''yaml'') None
   \<and> fst (get_loader demo_env (Raw ''yaml:app.yaml'') None)
       = Inr (demo_loader ''distb:Yaml''
           \<lparr>config_uri.scheme = ''yaml'', path = ''app.yaml'', fragment = None\<rparr>)
   \<and> fst (get_loader demo_env (Raw ''Yaml:app.yaml'') None)
       = Inr (demo_loader ''distb:Yaml''
           \<lparr>config_uri.scheme = ''Yaml'', path = ''app.yaml'', fragment = None\<rparr>)"
proof -
  have l: "lower ''YAML'' = lower ''yaml''"
    by (simp add: lower_def lower_char_def)
  have l': "lower ''yaml'' = lower ''Yaml''"
    by (simp add: lower_def lower_char_def)
  have f: "find_loaders demo_env (Some ''yaml'') None
      = ([EntryPointLoaderInfo ep_yaml_b None], [IterEntryPoints ''plaster.loader_factory''])"
    by (simp add: find_loaders_plain demo_defs)
  have p: "parse_uri (Raw ''yaml:app.yaml'')
      = Inr \<lparr>config_uri.scheme = ''yaml'', path = ''app.yaml'', fragment = None\<rparr>
    \<and> parse_uri (Raw ''Yaml:app.yaml'')
      = Inr \<lparr>config_uri.scheme = ''Yaml'', path = ''app.yaml'', fragment = None\<rparr>"
    by (simp add: parse_uri_def)
  have e: "entry_point_load demo_env ep_yaml_b = Inr (\<lambda>uri. Inr (demo_loader ''distb:Yaml'' uri))"
    by (simp add: demo_env_def ep_yaml_b_def)
  have d: "get_distribution demo_env (lower ''DistB'') = Some dist_b"
    by (simp add: demo_defs)
  have m: "filter (\<lambda>ep. lower ''Yaml'' = lower (name ep))
        (get_entry_map dist_b (loader_group None)) = [ep_yaml_b]"
    by (simp add: demo_defs)
  have n: "CHR ''+'' \<notin> set ''DistB''"
    by simp
  note q = scheme_matching_case_insensitive
        [where s = "''Yaml'' @ ''+'' @ ''DistB''" and env = demo_env and proto = None
           and t = "''Yaml'' @ ''+'' @ ''DistB''"
           and config = "Raw ''yaml:app.yaml''" and config' = "Raw ''yaml:app.yaml''"
           and uri = "\<lparr>config_uri.scheme = ''yaml'', path = ''app.yaml'', fragment = None\<rparr>"
           and uri' = "\<lparr>config_uri.scheme = ''yaml'', path = ''app.yaml'', fragment = None\<rparr>",
         THEN conjunct2, THEN conjunct1, rule_format, OF conjI, OF refl n]
  have s1: "fst (find_loaders demo_env (Some (''Yaml'' @ ''+'' @ ''DistB'')) None)
       = [EntryPointLoaderInfo ep_yaml_b None]"
    unfolding q d using m by simp
  show ?thesis
    using scheme_matching_case_insensitive
        [where s = "''YAML''" and t = "''yaml''" and env = demo_env and proto = None
           and config = "Raw ''yaml:app.yaml''" and config' = "Raw ''Yaml:app.yaml''"
           and uri = "\<lparr>config_uri.scheme = ''yaml'', path = ''app.yaml'', fragment = None\<rparr>"
           and uri' = "\<lparr>config_uri.scheme = ''Yaml'', path = ''app.yaml'', fragment = None\<rparr>"]
      scheme_matching_case_insensitive
        [where s = "''yaml''" and t = "''yaml''" and env = demo_env and proto = None
           and config = "Raw ''yaml:app.yaml''" and config' = "Raw ''yaml:app.yaml''"
           and uri = "\<lparr>config_uri.scheme = ''yaml'', path = ''app.yaml'', fragment = None\<rparr>"
           and uri' = "\<lparr>config_uri.scheme = ''yaml'', path = ''app.yaml'', fragment = None\<rparr>"]
      l l' f p e s1
    by (simp add: load_fresh raised_def)
qed

section \<open>The factory is imported once\<close>

lemma load_memo:
  assumes "factory_memo self = Some f"
  shows "load env self config = (through f config, self, [])"
  using assms by (simp add: load_def factory_def through_def split: sum.splits)

lemma load_each_memo:
  assumes "factory_memo self = Some f"
  shows "load_each env self configs = (map (through f) configs, self, [])"
  using assms by (induction configs) (simp_all add: load_memo)

lemma load_first_ok:
  assumes "factory_memo self = None" and "entry_point_load env (entry_point self) = Inr f"
  shows "load env self config =
     (case parse_uri config of
        Inl e \<Rightarrow> (Inl e, self, [])
      | Inr uri \<Rightarrow> (raised (f uri), self\<lparr>factory_memo := Some f\<rparr>,
                    [EntryPointLoad (entry_point self)]))"
  using assms by (simp add: load_def factory_def split: sum.splits)

lemma load_first_fails:
  assumes "factory_memo self = None" and "entry_point_load env (entry_point self) = Inl x"
  shows "load env self config =
     (case parse_uri config of
        Inl e \<Rightarrow> (Inl e, self, [])
      | Inr uri \<Rightarrow> (Inl (Raised x), self, [EntryPointLoad (entry_point self)]))"
  using assms by (simp add: load_def factory_def split: sum.splits)

lemma load_each_ok:
  assumes "factory_memo self = None" and "entry_point_load env (entry_point self) = Inr f"
    and "load_each env self configs = (results, self', calls)"
  shows "results = map (through f) configs
     \<and> (calls = [] \<and> self' = self
        \<or> calls = [EntryPointLoad (entry_point self)] \<and> self' = self\<lparr>factory_memo := Some f\<rparr>)"
  using assms
proof (induction configs arbitrary: results self' calls)
  case Nil
  then show ?case by simp
next
  case (Cons c cs)
  show ?case
  proof (cases "parse_uri c")
    case (Inl e)
    with Cons.prems have l: "load env self c = (Inl e, self, [])"
      by (simp add: load_first_ok)
    obtain rs s'' cs' where r: "load_each env self cs = (rs, s'', cs')"
      by (cases "load_each env self cs")
    from Cons.IH [OF Cons.prems(1,2) r] l r Cons.prems(3) Inl show ?thesis
      by (auto simp: through_def)
  next
    case (Inr uri)
    with Cons.prems have l: "load env self c =
        (raised (f uri), self\<lparr>factory_memo := Some f\<rparr>, [EntryPointLoad (entry_point self)])"
      by (simp add: load_first_ok)
    have "load_each env (self\<lparr>factory_memo := Some f\<rparr>) cs
        = (map (through f) cs, self\<lparr>factory_memo := Some f\<rparr>, [])"
      by (rule load_each_memo) simp
    with l Cons.prems(3) Inr show ?thesis
      by (auto simp: through_def)
  qed
qed

lemma load_each_fails:
  assumes "factory_memo self = None" and "entry_point_load env (entry_point self) = Inl x"
    and "load_each env self configs = (results, self', calls)"
  shows "set calls \<subseteq> {EntryPointLoad (entry_point self)} \<and> self' = self"
  using assms
proof (induction configs arbitrary: results self' calls)
  case Nil
  then show ?case by simp
next
  case (Cons c cs)
  obtain rs s'' cs' where r: "load_each env self cs = (rs, s'', cs')"
    by (cases "load_each env self cs")
  from Cons.IH [OF Cons.prems(1,2) r] r Cons.prems show ?case
    by (cases "parse_uri c") (auto simp: load_first_fails)
qed

lemma resolved_imports_failing:
  assumes "set calls \<subseteq> {EntryPointLoad ep}" and "entry_point_load env ep = Inl x"
  shows "resolved_imports env calls = []"
  using assms by (auto simp: resolved_imports_def filter_empty_conv)

lemma resolved_imports_length: "length (resolved_imports env calls) \<le> length calls"
  by (simp add: resolved_imports_def)

text \<open>
  C8. Whatever URIs are loaded one after the other through the same descriptor: at most one
  import of its entry point gives a factory, no other entry point is imported, and when the
  import succeeds the entry point is imported at most once in all. A descriptor that holds a
  factory imports nothing, stays as it is, and every load goes through the factory it holds.
  A descriptor that holds none imports at its first access of the factory, and when that
  import succeeds every load of the sequence goes through the factory it gave, which the
  descriptor holds from then on. (An import that raises leaves the descriptor without a
  factory, and the next access tries again.)
\<close>

theorem factory_resolved_at_most_once:
  assumes "load_each env self configs = (results, self', calls)"
  shows "length (resolved_imports env calls) \<le> 1
     \<and> set calls \<subseteq> {EntryPointLoad (entry_point self)}
     \<and> (\<forall>f. entry_point_load env (entry_point self) = Inr f \<longrightarrow> length calls \<le> 1)
     \<and> (\<forall>f. factory_memo self = Some f \<longrightarrow>
           calls = [] \<and> self' = self \<and> results = map (through f) configs)
     \<and> (\<forall>f. factory_memo self = None \<and> entry_point_load env (entry_point self) = Inr f \<longrightarrow>
           results = map (through f) configs \<and> (calls \<noteq> [] \<longrightarrow> factory_memo self' = Some f))
     \<and> (factory_memo self = None \<longrightarrow>
           snd (snd (factory env self)) = [EntryPointLoad (entry_point self)])"
proof (cases "factory_memo self")
  case (Some f)
  with assms have "calls = [] \<and> self' = self \<and> results = map (through f) configs"
    by (simp add: load_each_memo)
  with Some show ?thesis
    by (simp add: resolved_imports_def)
next
  case None
  have first: "snd (snd (factory env self)) = [EntryPointLoad (entry_point self)]"
    using None by (simp add: factory_def split: sum.splits)
  show ?thesis
  proof (cases "entry_point_load env (entry_point self)")
    case (Inl x)
    from load_each_fails [OF None Inl assms]
    have c: "set calls \<subseteq> {EntryPointLoad (entry_point self)}"
      by simp
    then have "resolved_imports env calls = []"
      using Inl by (rule resolved_imports_failing)
    with c None Inl first show ?thesis
      by simp
  next
    case (Inr f)
    from load_each_ok [OF None Inr assms]
    have r: "results = map (through f) configs"
      and c: "calls = [] \<and> self' = self
        \<or> calls = [EntryPointLoad (entry_point self)] \<and> self' = self\<lparr>factory_memo := Some f\<rparr>"
      by simp_all
    from c have "length calls \<le> 1"
      by auto
    moreover from this have "length (resolved_imports env calls) \<le> 1"
      using resolved_imports_length [of env calls] by simp
    moreover from c have "set calls \<subseteq> {EntryPointLoad (entry_point self)}"
      by auto
    moreover from c have "calls \<noteq> [] \<longrightarrow> factory_memo self' = Some f"
      by auto
    ultimately show ?thesis
      using None Inr r first by simp
  qed
qed

theorem factory_resolved_at_most_once_witness:
  "load_each demo_env (EntryPointLoaderInfo ep_yaml_b None)
       [Raw ''yaml:a.yaml'', Raw ''nocolon'', Raw ''yaml:b.yaml#s'']
     = ([Inr (demo_loader ''distb:Yaml''
              \<lparr>config_uri.scheme = ''yaml'', path = ''a.yaml'', fragment = None\<rparr>),
         Inl (InvalidURI ''nocolon''),
         Inr (demo_loader ''distb:Yaml''
              \<lparr>config_uri.scheme = ''yaml'', path = ''b.yaml'', fragment = Some ''s''\<rparr>)],
        (EntryPointLoaderInfo ep_yaml_b None)
          \<lparr>factory_memo := Some (\<lambda>uri. Inr (demo_loader ''distb:Yaml'' uri))\<rparr>,
        [EntryPointLoad ep_yaml_b])
   \<and> length (resolved_imports demo_env [EntryPointLoad ep_yaml_b]) \<le> 1
   \<and> load_each demo_env (EntryPointLoaderInfo ep_broken (Some ''logging''))
       [Raw ''toml:a.toml'', Raw ''toml:b.toml'']
     = ([Inl (Raised (PluginError ''ImportError'')), Inl (Raised (PluginError ''ImportError''))],
        EntryPointLoaderInfo ep_broken (Some ''logging''),
        [EntryPointLoad ep_broken, EntryPointLoad ep_broken])
   \<and> length (resolved_imports demo_env [EntryPointLoad ep_broken, EntryPointLoad ep_broken]) \<le> 1"
proof -
  have y: "entry_point_load demo_env ep_yaml_b = Inr (\<lambda>uri. Inr (demo_loader ''distb:Yaml'' uri))"
    by (simp add: demo_env_def ep_yaml_b_def)
  have b: "entry_point_load demo_env ep_broken = Inl (PluginError ''ImportError'')"
    by (simp add: demo_env_def ep_broken_def)
  have h: "load_each demo_env (EntryPointLoaderInfo ep_yaml_b None)
       [Raw ''yaml:a.yaml'', Raw ''nocolon'', Raw ''yaml:b.yaml#s'']
     = ([Inr (demo_loader ''distb:Yaml''
              \<lparr>config_uri.scheme = ''yaml'', path = ''a.yaml'', fragment = None\<rparr>),
         Inl (InvalidURI ''nocolon''),
         Inr (demo_loader ''distb:Yaml''
              \<lparr>config_uri.scheme = ''yaml'', path = ''b.yaml'', fragment = Some ''s''\<rparr>)],
        (EntryPointLoaderInfo ep_yaml_b None)
          \<lparr>factory_memo := Some (\<lambda>uri. Inr (demo_loader ''distb:Yaml'' uri))\<rparr>,
        [EntryPointLoad ep_yaml_b])"
    by (simp add: load_def factory_def parse_uri_def raised_def EntryPointLoaderInfo_def y)
  have g: "load_each demo_env (EntryPointLoaderInfo ep_broken (Some ''logging''))
       [Raw ''toml:a.toml'', Raw ''toml:b.toml'']
     = ([Inl (Raised (PluginError ''ImportError'')), Inl (Raised (PluginError ''ImportError''))],
        EntryPointLoaderInfo ep_broken (Some ''logging''),
        [EntryPointLoad ep_broken, EntryPointLoad ep_broken])"
    by (simp add: load_def factory_def parse_uri_def raised_def EntryPointLoaderInfo_def b)
  show ?thesis
    using factory_resolved_at_most_once [OF h] factory_resolved_at_most_once [OF g] h g
    by simp
qed

section \<open>Parsing twice\<close>

text \<open>
  C9. An already parsed URI is returned as it is; a string with a scheme separator parses;
  and when a string parses to a URI, parsing that URI gives the same, so that \<^verbatim>\<open>get_loader\<close>
  and \<^verbatim>\<open>load\<close> return the same for the string and for the URI parsed from it.
\<close>

theorem parse_uri_idempotent:
  "parse_uri (Parsed u) = Inr u
   \<and> (CHR '':'' \<in> set s \<longrightarrow> (\<exists>uri. parse_uri (Raw s) = Inr uri))
   \<and> (\<forall>uri. parse_uri (Raw s) = Inr uri \<longrightarrow>
         parse_uri (Parsed uri) = parse_uri (Raw s)
         \<and> get_loader env (Parsed uri) proto = get_loader env (Raw s) proto
         \<and> load env self (Parsed uri) = load env self (Raw s))"
  by (simp add: parse_uri_def get_loader_def load_def Let_def)

theorem parse_uri_idempotent_witness:
  "CHR '':'' \<in> set ''ini+distA:app.ini#main''
   \<and> parse_uri (Raw ''ini+distA:app.ini#main'')
     = Inr \<lparr>config_uri.scheme = ''ini+distA'', path = ''app.ini'', fragment = Some ''main''\<rparr>
   \<and> parse_uri (Parsed \<lparr>config_uri.scheme = ''ini+distA'', path = ''app.ini'',
                         fragment = Some ''main''\<rparr>)
     = parse_uri (Raw ''ini+distA:app.ini#main'')
   \<and> get_loader demo_env
        (Parsed \<lparr>config_uri.scheme = ''ini+distA'', path = ''app.ini'', fragment = Some ''main''\<rparr>)
        None
     = get_loader demo_env (Raw ''ini+distA:app.ini#main'') None"
proof -
  have p: "parse_uri (Raw ''ini+distA:app.ini#main'')
     = Inr \<lparr>config_uri.scheme = ''ini+distA'', path = ''app.ini'', fragment = Some ''main''\<rparr>"
    by (simp add: parse_uri_def)
  show ?thesis
    using parse_uri_idempotent [of _ "''ini+distA:app.ini#main''" demo_env None] p
    by simp
qed

section \<open>Settings\<close>

text \<open>
  C10. \<^verbatim>\<open>get_settings\<close> resolves the loader with \<^verbatim>\<open>get_loader\<close>, without a protocol, and
  returns what the loader's \<^verbatim>\<open>get_settings\<close> returns for the section and the defaults it was
  given, unchanged; a failure of the resolution is returned as it is. With no section the
  loader is called with no section, whatever the fragment of the URI, and a
  \<^verbatim>\<open>NoSectionError\<close> comes out only if plugin code raised it.
\<close>

theorem get_settings_delegates:
  "(\<forall>l calls. get_loader env config None = (Inr l, calls) \<longrightarrow>
       get_settings env config section defaults
         = (raised (loader_get_settings l section defaults), calls))
   \<and> (\<forall>e calls. get_loader env config None = (Inl e, calls) \<longrightarrow>
       get_settings env config section defaults = (Inl e, calls))
   \<and> (fst (get_settings env config None defaults) = Inl (Raised NoSectionError) \<longrightarrow>
       fst (get_loader env config None) = Inl (Raised NoSectionError)
       \<or> (\<exists>l. fst (get_loader env config None) = Inr l
              \<and> loader_get_settings l None defaults = Inl NoSectionError))"
  by (auto simp: get_settings_def raised_def split: prod.splits sum.splits)

theorem get_settings_delegates_witness:
  "get_loader demo_env (Raw ''yaml:app.yaml#main'') None
     = (Inr (demo_loader ''distb:Yaml''
          \<lparr>config_uri.scheme = ''yaml'', path = ''app.yaml'', fragment = Some ''main''\<rparr>),
        [IterEntryPoints ''plaster.loader_factory'', EntryPointLoad ep_yaml_b])
   \<and> get_settings demo_env (Raw ''yaml:app.yaml#main'') (Some ''app'') (Some [(''k'', ''v'')])
     = (Inr [(''app'', ''distb:Yaml''), (''k'', ''v'')],
        [IterEntryPoints ''plaster.loader_factory'', EntryPointLoad ep_yaml_b])
   \<and> get_loader demo_env (Raw ''yaml:app.yaml'') None
     = (Inr (demo_loader ''distb:Yaml''
          \<lparr>config_uri.scheme = ''yaml'', path = ''app.yaml'', fragment = None\<rparr>),
        [IterEntryPoints ''plaster.loader_factory'', EntryPointLoad ep_yaml_b])
   \<and> get_settings demo_env (Raw ''yaml:app.yaml'') None None
     = (Inl (Raised NoSectionError),
        [IterEntryPoints ''plaster.loader_factory'', EntryPointLoad ep_yaml_b])
   \<and> get_loader demo_env (Raw ''app.yaml'') None = (Inl (InvalidURI ''app.yaml''), [])
   \<and> get_settings demo_env (Raw ''app.yaml'') None None = (Inl (InvalidURI ''app.yaml''), [])"
proof -
  have y: "entry_point_load demo_env ep_yaml_b = Inr (\<lambda>uri. Inr (demo_loader ''distb:Yaml'' uri))"
    by (simp add: demo_env_def ep_yaml_b_def)
  have f: "find_loaders demo_env (Some ''yaml'') None
      = ([EntryPointLoaderInfo ep_yaml_b None], [IterEntryPoints ''plaster.loader_factory''])"
    by (simp add: find_loaders_plain demo_defs)
  have a: "get_loader demo_env (Raw ''yaml:app.yaml#main'') None
     = (Inr (demo_loader ''distb:Yaml''
          \<lparr>config_uri.scheme = ''yaml'', path = ''app.yaml'', fragment = Some ''main''\<rparr>),
        [IterEntryPoints ''plaster.loader_factory'', EntryPointLoad ep_yaml_b])"
    by (simp add: get_loader_def Let_def parse_uri_def f load_fresh y raised_def)
  have b: "get_loader demo_env (Raw ''yaml:app.yaml'') None
     = (Inr (demo_loader ''distb:Yaml''
          \<lparr>config_uri.scheme = ''yaml'', path = ''app.yaml'', fragment = None\<rparr>),
        [IterEntryPoints ''plaster.loader_factory'', EntryPointLoad ep_yaml_b])"
    by (simp add: get_loader_def Let_def parse_uri_def f load_fresh y raised_def)
  have c: "get_loader demo_env (Raw ''app.yaml'') None = (Inl (InvalidURI ''app.yaml''), [])"
    by (simp add: get_loader_def parse_uri_def)
  show ?thesis
    using get_settings_delegates
        [of demo_env "Raw ''yaml:app.yaml#main''" "Some ''app''" "Some [(''k'', ''v'')]"]
      get_settings_delegates [of demo_env "Raw ''yaml:app.yaml''" None None]
      get_settings_delegates [of demo_env "Raw ''app.yaml''" None None]
      a b c
    by (simp add: demo_loader_def raised_def)
qed

end
